theory Spec2Isabelle
  imports Complex_Main
begin

section \<open>Wallet service: data model\<close>

text \<open>
  The wallet service (gw-currency-wallet) keeps users, balances and transactions in a
  relational store and publishes large transfers to a Kafka topic. The Go code works with
  \<^verbatim>\<open>float64\<close> amounts and a \<^verbatim>\<open>NUMERIC(20,8)\<close> column; amounts are modelled here as exact
  reals, so rounding is not part of the model. Timestamps written with \<^verbatim>\<open>time.Now()\<close> on the
  wallet side and log lines are left out: no function below branches on them.
\<close>

record User =
  u_ID :: int
  u_Username :: string
  u_Email :: string
  u_PasswordHash :: string

record Balance =
  b_UserID :: int
  b_Currency :: string
  b_Amount :: real

record Transaction =
  t_UserID :: int
  t_Type :: string
  t_FromCurrency :: string
  t_ToCurrency :: string
  t_FromAmount :: real
  t_ToAmount :: real
  t_ExchangeRate :: real
  t_Status :: string

record UserBalances =
  USD :: real
  EUR :: real
  RUB :: real



definition TransactionTypeExchange :: string where
  "TransactionTypeExchange = ''exchange''"

definition TransactionStatusCompleted :: string where
  "TransactionStatusCompleted = ''completed''"

text \<open>
  What an external system (the SQL driver, the Kafka writer, the document store) can
  report instead of success. \<open>PartialWrite k\<close> is used by the document store only: a bulk
  insert that stopped after \<open>k\<close> documents.
\<close>

datatype fault = SerializationFailure | Unavailable | CheckViolation | PartialWrite nat

text \<open>
  Go errors are built with \<^verbatim>\<open>fmt.Errorf\<close>; \<open>ErrWrap p e\<close> stands for
  \<^verbatim>\<open>fmt.Errorf(p + ": %w", e)\<close>.
\<close>

datatype error =
    ErrAmountMustBePositive
  | ErrCurrenciesMustDiffer
  | ErrInsufficientFunds real real
  | ErrBalanceNotFound
  | ErrUserNotFound
  | ErrNoRows
  | ErrInvalidUsernameOrPassword
  | ErrSyntax
  | ErrDriver fault
  | ErrWrap string error

datatype isolation = LevelDefault | LevelSerializable

text \<open>The SQL statements the storage layer sends, in the order it sends them.\<close>

datatype sql =
    Begin isolation
  | SelectUserByUsername string
  | SelectBalance int string
  | SelectBalanceForUpdate int string
  | SelectAllBalances int
  | UpdateBalanceSet int string real
  | UpdateBalanceSub int string real
  | UpdateBalanceAdd int string real
  | InsertTransaction Transaction
  | Commit
  | Rollback

record LargeTransferMessage =
  m_UserID :: int
  m_Type :: string
  m_FromCurrency :: string
  m_ToCurrency :: string
  m_Amount :: real

record ProducerMessage =
  pm_Key :: string
  pm_Value :: LargeTransferMessage

text \<open>
  The state the wallet service acts on. \<open>users\<close>, \<open>balances\<close> and \<open>transactions\<close> are the
  rows of the three tables; \<open>statements\<close> is the trace of SQL sent so far; \<open>written\<close> holds
  the messages accepted by the Kafka writer; \<open>hash_compares\<close> records every call of
  \<^verbatim>\<open>bcrypt.CompareHashAndPassword\<close>. Every round trip to an external system takes its
  outcome from \<open>faults\<close> at index \<open>calls\<close>, so a failing store or broker is an input of
  the model. \<open>threshold\<close> is the producer's configured threshold.
\<close>

record wallet =
  users :: "User list"
  balances :: "Balance list"
  transactions :: "Transaction list"
  statements :: "sql list"
  written :: "ProducerMessage list"
  hash_compares :: "(string \<times> string) list"
  faults :: "nat \<Rightarrow> fault option"
  calls :: nat
  threshold :: real

definition io :: "wallet \<Rightarrow> fault option \<times> wallet" where
  "io w = (faults w (calls w), w\<lparr>calls := calls w + 1\<rparr>)"

definition exec :: "sql \<Rightarrow> wallet \<Rightarrow> fault option \<times> wallet" where
  "exec q w = io (w\<lparr>statements := statements w @ [q]\<rparr>)"

definition row_is :: "int \<Rightarrow> string \<Rightarrow> Balance \<Rightarrow> bool" where
  "row_is userID currency b \<longleftrightarrow> b_UserID b = userID \<and> b_Currency b = currency"

definition balance_of :: "wallet \<Rightarrow> int \<Rightarrow> string \<Rightarrow> real option" where
  "balance_of w userID currency =
     map_option b_Amount (find (row_is userID currency) (balances w))"

text \<open>
  An \<^verbatim>\<open>UPDATE balances SET amount = f(amount) WHERE p\<close>: the table's
  \<^verbatim>\<open>CHECK (amount >= 0)\<close> rejects the statement when a new amount is negative;
  otherwise the rows and the number of rows affected are returned.
\<close>

definition update_rows ::
  "(Balance \<Rightarrow> bool) \<Rightarrow> (real \<Rightarrow> real) \<Rightarrow> Balance list \<Rightarrow> fault + (nat \<times> Balance list)" where
  "update_rows p f rows =
     (if list_ex (\<lambda>b. p b \<and> f (b_Amount b) < 0) rows then Inl CheckViolation
      else Inr (length (filter p rows),
                map (\<lambda>b. if p b then b\<lparr>b_Amount := f (b_Amount b)\<rparr> else b) rows))"

section \<open>Wallet service: storage methods (postgres)\<close>

definition GetUserByUsername :: "wallet \<Rightarrow> string \<Rightarrow> (error + User) \<times> wallet" where
  "GetUserByUsername w username =
     (case exec (SelectUserByUsername username) w of
        (Some f, w') \<Rightarrow> (Inl (ErrWrap ''failed to get user'' (ErrDriver f)), w')
      | (None, w') \<Rightarrow>
          (case find (\<lambda>u. u_Username u = username) (users w') of
             None \<Rightarrow> (Inl ErrUserNotFound, w')
           | Some u \<Rightarrow> (Inr u, w')))"


text \<open>
  \<^verbatim>\<open>GetAllBalances\<close> orders the rows by currency; its only caller dispatches on the
  currency code of each row, and \<^verbatim>\<open>UNIQUE(user_id, currency)\<close> leaves one row per
  code, so the rows are returned here in table order.
\<close>

definition GetAllBalances :: "wallet \<Rightarrow> int \<Rightarrow> (error + Balance list) \<times> wallet" where
  "GetAllBalances w userID =
     (case exec (SelectAllBalances userID) w of
        (Some f, w') \<Rightarrow> (Inl (ErrWrap ''failed to query balances'' (ErrDriver f)), w')
      | (None, w') \<Rightarrow> (Inr (filter (\<lambda>b. b_UserID b = userID) (balances w')), w'))"



text \<open>
  \<^verbatim>\<open>ExecuteExchange\<close> runs inside one SQL transaction. Its statements act on the rows
  of the state; \<open>discard\<close> puts back the rows as they were at \<^verbatim>\<open>BEGIN\<close>, and \<open>abort\<close> is
  the deferred \<^verbatim>\<open>tx.Rollback()\<close> on an error return (its own result is ignored by the
  code). After \<^verbatim>\<open>Commit\<close> has been called the deferred rollback sends nothing.
\<close>

definition discard :: "wallet \<Rightarrow> wallet \<Rightarrow> wallet" where
  "discard w0 w = w\<lparr>balances := balances w0, transactions := transactions w0\<rparr>"

definition abort :: "wallet \<Rightarrow> wallet \<Rightarrow> error \<Rightarrow> error option \<times> wallet" where
  "abort w0 w e = (Some e, discard w0 (snd (exec Rollback w)))"

definition exec_update ::
  "sql \<Rightarrow> (Balance \<Rightarrow> bool) \<Rightarrow> (real \<Rightarrow> real) \<Rightarrow> wallet \<Rightarrow> fault option \<times> wallet" where
  "exec_update q p f w =
     (case exec q w of
        (Some flt, w') \<Rightarrow> (Some flt, w')
      | (None, w') \<Rightarrow>
          (case update_rows p f (balances w') of
             Inl flt \<Rightarrow> (Some flt, w')
           | Inr (_, rows) \<Rightarrow> (None, w'\<lparr>balances := rows\<rparr>)))"

text \<open>The row that step 5 of \<^verbatim>\<open>ExecuteExchange\<close> inserts.\<close>

definition exchange_row ::
  "int \<Rightarrow> string \<Rightarrow> string \<Rightarrow> real \<Rightarrow> real \<Rightarrow> real \<Rightarrow> Transaction" where
  "exchange_row userID fromCurrency toCurrency fromAmount toAmount rate =
     \<lparr>t_UserID = userID, t_Type = TransactionTypeExchange,
      t_FromCurrency = fromCurrency, t_ToCurrency = toCurrency,
      t_FromAmount = fromAmount, t_ToAmount = toAmount,
      t_ExchangeRate = rate, t_Status = TransactionStatusCompleted\<rparr>"

definition ExecuteExchange ::
  "wallet \<Rightarrow> int \<Rightarrow> string \<Rightarrow> string \<Rightarrow> real \<Rightarrow> real \<Rightarrow> real \<Rightarrow> error option \<times> wallet" where
  "ExecuteExchange w userID fromCurrency toCurrency fromAmount toAmount rate =
     (case exec (Begin LevelSerializable) w of
        (Some f, w1) \<Rightarrow> (Some (ErrWrap ''failed to begin transaction'' (ErrDriver f)), w1)
      | (None, w1) \<Rightarrow>
     (case exec (SelectBalanceForUpdate userID fromCurrency) w1 of
        (Some f, w2) \<Rightarrow> abort w w2 (ErrWrap ''failed to get balance'' (ErrDriver f))
      | (None, w2) \<Rightarrow>
     (case find (row_is userID fromCurrency) (balances w2) of
        None \<Rightarrow> abort w w2 (ErrWrap ''failed to get balance'' ErrNoRows)
      | Some row \<Rightarrow>
     (if b_Amount row < fromAmount
      then abort w w2 (ErrInsufficientFunds (b_Amount row) fromAmount)
      else
     (case exec_update (UpdateBalanceSub userID fromCurrency fromAmount)
             (row_is userID fromCurrency) (\<lambda>a. a - fromAmount) w2 of
        (Some f, w3) \<Rightarrow> abort w w3 (ErrWrap ''failed to deduct balance'' (ErrDriver f))
      | (None, w3) \<Rightarrow>
     (case exec_update (UpdateBalanceAdd userID toCurrency toAmount)
             (row_is userID toCurrency) (\<lambda>a. a + toAmount) w3 of
        (Some f, w4) \<Rightarrow> abort w w4 (ErrWrap ''failed to add balance'' (ErrDriver f))
      | (None, w4) \<Rightarrow>
     (case exec (InsertTransaction (exchange_row userID fromCurrency toCurrency
                                      fromAmount toAmount rate)) w4 of
        (Some f, w5) \<Rightarrow> abort w w5 (ErrWrap ''failed to create transaction'' (ErrDriver f))
      | (None, w5) \<Rightarrow>
     (case exec Commit
             (w5\<lparr>transactions := transactions w5 @
                    [exchange_row userID fromCurrency toCurrency fromAmount toAmount rate]\<rparr>) of
        (Some f, w6) \<Rightarrow>
          (Some (ErrWrap ''failed to commit transaction'' (ErrDriver f)), discard w w6)
      | (None, w6) \<Rightarrow> (None, w6)))))))))"

section \<open>Wallet service: Kafka producer\<close>

definition digit_char :: "nat \<Rightarrow> char" where
  "digit_char n = ''0123456789'' ! n"

function show_nat :: "nat \<Rightarrow> string" where
  "show_nat n = (if n < 10 then [digit_char n] else show_nat (n div 10) @ [digit_char (n mod 10)])"
  by pat_completeness auto
termination
  by (relation "measure id") auto

declare show_nat.simps [simp del]

text \<open>\<^verbatim>\<open>fmt.Sprintf("%d", i)\<close> for an \<^verbatim>\<open>int64\<close>.\<close>

definition show_int :: "int \<Rightarrow> string" where
  "show_int i = (if i < 0 then CHR ''-'' # show_nat (nat (- i)) else show_nat (nat i))"

text \<open>
  \<^verbatim>\<open>json.Marshal\<close> of the message struct cannot fail on a real amount, so that error
  branch has no counterpart; the payload is kept as the struct itself.
\<close>

definition SendLargeTransferNotification ::
  "wallet \<Rightarrow> int \<Rightarrow> string \<Rightarrow> string \<Rightarrow> string \<Rightarrow> real \<Rightarrow> error option \<times> wallet" where
  "SendLargeTransferNotification w userID transferType fromCurrency toCurrency amount =
     (if amount < threshold w then (None, w)
      else
        (let message = \<lparr>m_UserID = userID, m_Type = transferType,
                         m_FromCurrency = fromCurrency, m_ToCurrency = toCurrency,
                         m_Amount = amount\<rparr>;
             kafkaMessage = \<lparr>pm_Key = ''user_'' @ show_int userID, pm_Value = message\<rparr>
         in case io w of
              (Some f, w') \<Rightarrow> (Some (ErrWrap ''failed to send message'' (ErrDriver f)), w')
            | (None, w') \<Rightarrow> (None, w'\<lparr>written := written w' @ [kafkaMessage]\<rparr>)))"

section \<open>Wallet service: rates cache and exchanger client\<close>

text \<open>
  A Go map is a reference: \<^verbatim>\<open>Set\<close> stores the caller's map itself and \<^verbatim>\<open>Get\<close> builds a
  new one. The heap is the list of allocated maps, a reference is an index into it, and
  \<open>None\<close> is the nil map, which reads as empty. Times and durations are integers
  (nanoseconds); \<open>now\<close> is the reading of the clock at the call.
\<close>

type_synonym rates_map = "string \<rightharpoonup> real"

type_synonym heap = "rates_map list"

type_synonym mapref = "nat option"

record RatesCache =
  rates :: mapref
  ttl :: int
  lastUp :: int

definition deref :: "heap \<Rightarrow> mapref \<Rightarrow> rates_map" where
  "deref h r = (case r of None \<Rightarrow> Map.empty
                | Some a \<Rightarrow> if a < length h then h ! a else Map.empty)"

definition Set_rates :: "RatesCache \<Rightarrow> mapref \<Rightarrow> int \<Rightarrow> RatesCache" where
  "Set_rates c m now = c\<lparr>rates := m, lastUp := now\<rparr>"

definition Get_rates :: "RatesCache \<Rightarrow> heap \<Rightarrow> int \<Rightarrow> (mapref \<times> bool) \<times> heap" where
  "Get_rates c h now =
     (if now - lastUp c > ttl c then ((None, False), h)
      else ((Some (length h), True), h @ [deref h (rates c)]))"

definition GetRate :: "RatesCache \<Rightarrow> heap \<Rightarrow> string \<Rightarrow> string \<Rightarrow> int \<Rightarrow> real \<times> bool" where
  "GetRate c h fromCurrency toCurrency now =
     (if now - lastUp c > ttl c then (0, False)
      else (case deref h (rates c) (fromCurrency @ ''_'' @ toCurrency) of
              None \<Rightarrow> (0, False)
            | Some rate \<Rightarrow> (rate, True)))"

text \<open>
  The exchanger client forwards to the generated gRPC stub; \<open>rpc\<close> is the answer of the
  remote service for a pair.
\<close>

definition GetExchangeRateForCurrency ::
  "(string \<Rightarrow> string \<Rightarrow> error + real) \<Rightarrow> string \<Rightarrow> string \<Rightarrow> error + real" where
  "GetExchangeRateForCurrency rpc fromCurrency toCurrency =
     (case rpc fromCurrency toCurrency of
        Inl e \<Rightarrow> Inl (ErrWrap ''failed to get exchange rate'' e)
      | Inr rate \<Rightarrow> Inr rate)"

section \<open>Wallet service: business logic\<close>

definition assign_balance :: "UserBalances \<Rightarrow> Balance \<Rightarrow> UserBalances" where
  "assign_balance ub b =
     (if b_Currency b = ''USD'' then ub\<lparr>USD := b_Amount b\<rparr>
      else if b_Currency b = ''EUR'' then ub\<lparr>EUR := b_Amount b\<rparr>
      else if b_Currency b = ''RUB'' then ub\<lparr>RUB := b_Amount b\<rparr>
      else ub)"

definition GetUserBalances :: "wallet \<Rightarrow> int \<Rightarrow> (error + UserBalances) \<times> wallet" where
  "GetUserBalances w userID =
     (case GetAllBalances w userID of
        (Inl e, w') \<Rightarrow> (Inl (ErrWrap ''failed to get balances'' e), w')
      | (Inr rows, w') \<Rightarrow> (Inr (foldl assign_balance \<lparr>USD = 0, EUR = 0, RUB = 0\<rparr> rows), w'))"

text \<open>
  \<open>bcrypt\<close> stands for \<^verbatim>\<open>bcrypt.CompareHashAndPassword\<close>: true when the password matches
  the stored hash.
\<close>

definition AuthenticateUser ::
  "(string \<Rightarrow> string \<Rightarrow> bool) \<Rightarrow> wallet \<Rightarrow> string \<Rightarrow> string \<Rightarrow> (error + User) \<times> wallet" where
  "AuthenticateUser bcrypt w username password =
     (case GetUserByUsername w username of
        (Inl e, w1) \<Rightarrow> (Inl ErrInvalidUsernameOrPassword, w1)
      | (Inr user, w1) \<Rightarrow>
          (let w2 = w1\<lparr>hash_compares := hash_compares w1 @ [(u_PasswordHash user, password)]\<rparr>
           in if \<not> bcrypt (u_PasswordHash user) password
              then (Inl ErrInvalidUsernameOrPassword, w2)
              else (Inr user, w2)))"





text \<open>
  \<^verbatim>\<open>ExchangeCurrency\<close> returns the exchanged amount and the new balances; when reading the
  balances back fails it still returns the amount, with no balances and no error.
\<close>

definition ExchangeCurrency ::
  "RatesCache \<Rightarrow> heap \<Rightarrow> int \<Rightarrow> (string \<Rightarrow> string \<Rightarrow> error + real) \<Rightarrow>
   wallet \<Rightarrow> int \<Rightarrow> string \<Rightarrow> string \<Rightarrow> real \<Rightarrow>
   (error + real \<times> UserBalances option) \<times> wallet" where
  "ExchangeCurrency ratesCache h now rpc w userID fromCurrency toCurrency amount =
     (if amount \<le> 0 then (Inl ErrAmountMustBePositive, w)
      else if fromCurrency = toCurrency then (Inl ErrCurrenciesMustDiffer, w)
      else
     (case (case GetRate ratesCache h fromCurrency toCurrency now of
              (rate, True) \<Rightarrow> Inr rate
            | (_, False) \<Rightarrow> GetExchangeRateForCurrency rpc fromCurrency toCurrency) of
        Inl e \<Rightarrow> (Inl (ErrWrap ''failed to get exchange rate'' e), w)
      | Inr rate \<Rightarrow>
     (case ExecuteExchange w userID fromCurrency toCurrency amount (rate * amount) rate of
        (Some e, w1) \<Rightarrow> (Inl (ErrWrap ''failed to execute exchange'' e), w1)
      | (None, w1) \<Rightarrow>
          (let w2 = snd (SendLargeTransferNotification w1 userID ''exchange''
                           fromCurrency toCurrency amount)
           in case GetUserBalances w2 userID of
                (Inl e, w3) \<Rightarrow> (Inr (rate * amount, None), w3)
              | (Inr newBalances, w3) \<Rightarrow> (Inr (rate * amount, Some newBalances), w3)))))"

section \<open>Notification service: data model\<close>

text \<open>
  The notification service (gw-notification) reads the topic and archives the events in
  a MongoDB collection. The server-assigned \<^verbatim>\<open>_id\<close> of a document is left out; times
  are integers read from \<open>clock\<close>.
\<close>

record LargeTransfer =
  lt_UserID :: int
  lt_Type :: string
  lt_FromCurrency :: string
  lt_ToCurrency :: string
  lt_Amount :: real
  lt_Timestamp :: int
  lt_ProcessedAt :: int
  lt_Status :: string
  lt_ErrorMessage :: string

definition StatusProcessed :: string where
  "StatusProcessed = ''processed''"

definition StatusFailed :: string where
  "StatusFailed = ''failed''"

record KafkaMessage =
  km_UserID :: int
  km_Type :: string
  km_FromCurrency :: string
  km_ToCurrency :: string
  km_Amount :: real
  km_Timestamp :: int

text \<open>A \<^verbatim>\<open>kafka.Message\<close> as the reader delivers it: its position and its payload.\<close>

record Message =
  msg_Partition :: int
  msg_Offset :: int
  msg_Value :: string

record Statistics =
  TotalProcessed :: int
  TotalFailed :: int
  LastProcessedAt :: int
  AverageAmount :: real
  TotalAmount :: real
  ProcessingRate :: real

text \<open>
  The consumer with what it acts on: \<open>collection\<close> is the MongoDB collection,
  \<open>commit_calls\<close> lists the argument of every \<^verbatim>\<open>CommitMessages\<close> call and \<open>committed\<close>
  those the broker accepted, \<open>sleeps\<close> lists the durations slept between attempts.
  As in the wallet, each round trip takes its outcome from \<open>n_faults\<close> at \<open>n_calls\<close>.
\<close>

record consumer =
  batchSize :: int
  retryAttempts :: int
  retryDelay :: int
  messagesProcessed :: int
  messagesFailed :: int
  collection :: "LargeTransfer list"
  commit_calls :: "Message list list"
  committed :: "Message list list"
  sleeps :: "int list"
  n_faults :: "nat \<Rightarrow> fault option"
  n_calls :: nat
  clock :: int

definition n_io :: "consumer \<Rightarrow> fault option \<times> consumer" where
  "n_io c = (n_faults c (n_calls c), c\<lparr>n_calls := n_calls c + 1\<rparr>)"

section \<open>Notification service: document store (mongodb)\<close>

definition stamp :: "int \<Rightarrow> LargeTransfer \<Rightarrow> LargeTransfer" where
  "stamp now t = t\<lparr>lt_ProcessedAt := now, lt_Status := StatusProcessed\<rparr>"

text \<open>
  Both save methods write the stamp into the caller's value before inserting, so they
  return the stamped value next to the error. A failed \<^verbatim>\<open>InsertMany\<close> may have
  inserted a prefix of the documents (\<open>PartialWrite k\<close>).
\<close>

definition SaveTransfer ::
  "consumer \<Rightarrow> LargeTransfer \<Rightarrow> error option \<times> LargeTransfer \<times> consumer" where
  "SaveTransfer c transfer =
     (let transfer' = stamp (clock c) transfer
      in case n_io c of
           (Some f, c') \<Rightarrow> (Some (ErrWrap ''failed to save transfer'' (ErrDriver f)), transfer', c')
         | (None, c') \<Rightarrow> (None, transfer', c'\<lparr>collection := collection c' @ [transfer']\<rparr>))"

definition SaveTransferBatch ::
  "consumer \<Rightarrow> LargeTransfer list \<Rightarrow> error option \<times> LargeTransfer list \<times> consumer" where
  "SaveTransferBatch c transfers =
     (if length transfers = 0 then (None, transfers, c)
      else
        (let now = clock c;
             documents = map (stamp now) transfers
         in case n_io c of
              (Some f, c') \<Rightarrow>
                (Some (ErrWrap ''failed to save transfer batch'' (ErrDriver f)), documents,
                 c'\<lparr>collection := collection c' @
                      take (case f of PartialWrite k \<Rightarrow> k | _ \<Rightarrow> 0) documents\<rparr>)
            | (None, c') \<Rightarrow> (None, documents, c'\<lparr>collection := collection c' @ documents\<rparr>)))"

text \<open>
  The aggregation pipeline groups the whole collection into one result; on an empty
  collection it yields no result and the statistics stay zero.
\<close>

definition aggregate :: "LargeTransfer list \<Rightarrow> Statistics" where
  "aggregate docs =
     \<lparr>TotalProcessed = int (length (filter (\<lambda>d. lt_Status d = StatusProcessed) docs)),
      TotalFailed = int (length (filter (\<lambda>d. lt_Status d = StatusFailed) docs)),
      LastProcessedAt = foldr max (map lt_ProcessedAt (tl docs)) (lt_ProcessedAt (hd docs)),
      AverageAmount = sum_list (map lt_Amount docs) / real (length docs),
      TotalAmount = sum_list (map lt_Amount docs),
      ProcessingRate = 0\<rparr>"

definition GetStatistics :: "consumer \<Rightarrow> (error + Statistics) \<times> consumer" where
  "GetStatistics c =
     (case n_io c of
        (Some f, c1) \<Rightarrow> (Inl (ErrWrap ''failed to get statistics'' (ErrDriver f)), c1)
      | (None, c1) \<Rightarrow>
     (case n_io c1 of
        (Some f, c2) \<Rightarrow> (Inl (ErrWrap ''failed to decode statistics'' (ErrDriver f)), c2)
      | (None, c2) \<Rightarrow>
          (if length (collection c2) > 0 then (Inr (aggregate (collection c2)), c2)
           else (Inr \<lparr>TotalProcessed = 0, TotalFailed = 0, LastProcessedAt = 0,
                      AverageAmount = 0, TotalAmount = 0, ProcessingRate = 0\<rparr>, c2))))"

section \<open>Notification service: Kafka consumer\<close>

definition incrementProcessed :: "consumer \<Rightarrow> int \<Rightarrow> consumer" where
  "incrementProcessed c count = c\<lparr>messagesProcessed := messagesProcessed c + count\<rparr>"

definition incrementFailed :: "consumer \<Rightarrow> consumer" where
  "incrementFailed c = c\<lparr>messagesFailed := messagesFailed c + 1\<rparr>"

definition sleep :: "consumer \<Rightarrow> consumer" where
  "sleep c = c\<lparr>sleeps := sleeps c @ [retryDelay c], clock := clock c + retryDelay c\<rparr>"

definition CommitMessages :: "consumer \<Rightarrow> Message list \<Rightarrow> fault option \<times> consumer" where
  "CommitMessages c msgs =
     (case n_io (c\<lparr>commit_calls := commit_calls c @ [msgs]\<rparr>) of
        (Some f, c') \<Rightarrow> (Some f, c')
      | (None, c') \<Rightarrow> (None, c'\<lparr>committed := committed c' @ [msgs]\<rparr>))"

text \<open>\<open>unmarshal\<close> stands for \<^verbatim>\<open>json.Unmarshal\<close> into a \<^verbatim>\<open>KafkaMessage\<close>.\<close>

definition parseMessage ::
  "(string \<Rightarrow> KafkaMessage option) \<Rightarrow> Message \<Rightarrow> error + LargeTransfer" where
  "parseMessage unmarshal msg =
     (case unmarshal (msg_Value msg) of
        None \<Rightarrow> Inl (ErrWrap ''failed to unmarshal message'' ErrSyntax)
      | Some kafkaMsg \<Rightarrow>
          Inr \<lparr>lt_UserID = km_UserID kafkaMsg, lt_Type = km_Type kafkaMsg,
               lt_FromCurrency = km_FromCurrency kafkaMsg,
               lt_ToCurrency = km_ToCurrency kafkaMsg,
               lt_Amount = km_Amount kafkaMsg, lt_Timestamp = km_Timestamp kafkaMsg,
               lt_ProcessedAt = 0, lt_Status = [], lt_ErrorMessage = []\<rparr>)"

text \<open>
  The retry loop of \<^verbatim>\<open>flushBatch\<close>: \<open>R\<close> is \<^verbatim>\<open>c.retryAttempts\<close>, \<open>err\<close> the error of the
  last attempt. The batch of the next attempt is the one the failed attempt stamped.
\<close>

function save_loop ::
  "int \<Rightarrow> consumer \<Rightarrow> LargeTransfer list \<Rightarrow> int \<Rightarrow> error option \<Rightarrow> error option \<times> consumer" where
  "save_loop R c batch attempt err =
     (if attempt < R then
        (case SaveTransferBatch c batch of
           (None, batch', c') \<Rightarrow> (None, c')
         | (Some e, batch', c') \<Rightarrow>
             save_loop R (if attempt < R - 1 then sleep c' else c') batch' (attempt + 1) (Some e))
      else (err, c))"
  by pat_completeness auto
termination
  by (relation "measure (\<lambda>(R, c, batch, attempt, err). nat (R - attempt))") auto

declare save_loop.simps [simp del]

definition flushBatch :: "consumer \<Rightarrow> LargeTransfer list \<Rightarrow> Message list \<Rightarrow> consumer" where
  "flushBatch c batch messages =
     (if length batch = 0 then c
      else
        (case save_loop (retryAttempts c) c batch 0 None of
           (Some e, c1) \<Rightarrow> incrementFailed c1
         | (None, c1) \<Rightarrow>
             (case CommitMessages c1 messages of
                (Some f, c2) \<Rightarrow> c2
              | (None, c2) \<Rightarrow> incrementProcessed c2 (int (length batch)))))"

text \<open>
  One worker's loop. Each iteration of the \<^verbatim>\<open>select\<close> takes the next event; the events
  are given as a list, and the result is the worker's accumulator with the consumer, at
  its return or when the list is used up.
\<close>

datatype event = CtxDone | Tick | Received Message | Closed

fun processMessages ::
  "(string \<Rightarrow> KafkaMessage option) \<Rightarrow> event list \<Rightarrow> LargeTransfer list \<Rightarrow> Message list \<Rightarrow>
   consumer \<Rightarrow> LargeTransfer list \<times> Message list \<times> consumer" where
  "processMessages unmarshal [] batch kafkaMessages c = (batch, kafkaMessages, c)"
| "processMessages unmarshal (CtxDone # evs) batch kafkaMessages c =
     (if length batch > 0 then (batch, kafkaMessages, flushBatch c batch kafkaMessages)
      else (batch, kafkaMessages, c))"
| "processMessages unmarshal (Tick # evs) batch kafkaMessages c =
     (if length batch > 0
      then processMessages unmarshal evs [] [] (flushBatch c batch kafkaMessages)
      else processMessages unmarshal evs batch kafkaMessages c)"
| "processMessages unmarshal (Closed # evs) batch kafkaMessages c =
     (if length batch > 0 then (batch, kafkaMessages, flushBatch c batch kafkaMessages)
      else (batch, kafkaMessages, c))"
| "processMessages unmarshal (Received msg # evs) batch kafkaMessages c =
     (case parseMessage unmarshal msg of
        Inl e \<Rightarrow>
          processMessages unmarshal evs batch kafkaMessages
            (snd (CommitMessages (incrementFailed c) [msg]))
      | Inr transfer \<Rightarrow>
          (if int (length (batch @ [transfer])) \<ge> batchSize c
           then processMessages unmarshal evs [] []
                  (flushBatch c (batch @ [transfer]) (kafkaMessages @ [msg]))
           else processMessages unmarshal evs (batch @ [transfer]) (kafkaMessages @ [msg]) c))"

text \<open>Calls of the document store's two save methods, in sequence.\<close>

datatype sink_op = SaveOne LargeTransfer | SaveBatch "LargeTransfer list"

fun sink_run :: "sink_op list \<Rightarrow> consumer \<Rightarrow> consumer" where
  "sink_run [] c = c"
| "sink_run (SaveOne t # ops) c = sink_run ops (snd (snd (SaveTransfer c t)))"
| "sink_run (SaveBatch ts # ops) c = sink_run ops (snd (snd (SaveTransferBatch c ts)))"

section \<open>Assumptions on the environment and example states\<close>

text \<open>
  A wallet whose store and broker answer every further round trip without a fault.
\<close>

definition healthy :: "wallet \<Rightarrow> bool" where
  "healthy w \<longleftrightarrow> (\<forall>n\<ge>calls w. faults w n = None)"

text \<open>
  Alice after scenario steps 1 to 5 of the specification, with USD rounded to 100:
  one user, her three balance rows, threshold 30000, a store that never fails.
\<close>

definition alice_wallet :: wallet where
  "alice_wallet =
     \<lparr>users = [\<lparr>u_ID = 1, u_Username = ''alice'', u_Email = ''a@x'',
                u_PasswordHash = ''hash-of-pw12345''\<rparr>],
      balances = [\<lparr>b_UserID = 1, b_Currency = ''USD'', b_Amount = 100\<rparr>,
                  \<lparr>b_UserID = 1, b_Currency = ''EUR'', b_Amount = 92\<rparr>,
                  \<lparr>b_UserID = 1, b_Currency = ''RUB'', b_Amount = 0\<rparr>],
      transactions = [], statements = [], written = [], hash_compares = [],
      faults = (\<lambda>_. None), calls = 0, threshold = 30000\<rparr>"


text \<open>
  The constraints of the \<^verbatim>\<open>balances\<close> table: \<^verbatim>\<open>UNIQUE(user_id, currency)\<close> and
  \<^verbatim>\<open>CHECK (amount >= 0)\<close>.
\<close>

definition row_key :: "Balance \<Rightarrow> int \<times> string" where
  "row_key b = (b_UserID b, b_Currency b)"

definition store_ok :: "wallet \<Rightarrow> bool" where
  "store_ok w \<longleftrightarrow> distinct (map row_key (balances w)) \<and> list_all (\<lambda>b. 0 \<le> b_Amount b) (balances w)"

text \<open>The rows a trace selects \<^verbatim>\<open>FOR UPDATE\<close>, in the order of the trace.\<close>

fun locked_rows :: "sql list \<Rightarrow> (int \<times> string) list" where
  "locked_rows [] = []"
| "locked_rows (SelectBalanceForUpdate u c # qs) = (u, c) # locked_rows qs"
| "locked_rows (q # qs) = locked_rows qs"

text \<open>A map reference is valid in a heap when it is nil or allocated there.\<close>

definition valid_ref :: "heap \<Rightarrow> mapref \<Rightarrow> bool" where
  "valid_ref h r = (case r of None \<Rightarrow> True | Some a \<Rightarrow> a < length h)"

text \<open>
  A heap holding one rate table, and a cache with a TTL of 300 time units that has
  never been set.
\<close>

definition example_heap :: heap where
  "example_heap = [[''USD_EUR'' \<mapsto> 92 / 100, ''EUR_USD'' \<mapsto> 108 / 100]]"

definition example_cache :: RatesCache where
  "example_cache = \<lparr>rates = None, ttl = 300, lastUp = 0\<rparr>"

text \<open>A stand-in for bcrypt in the examples: the hash of a password is its tagged copy.\<close>

definition example_bcrypt :: "string \<Rightarrow> string \<Rightarrow> bool" where
  "example_bcrypt hash password \<longleftrightarrow> hash = ''hash-of-'' @ password"

text \<open>
  The number of transactions a trace begins: every call of \<^verbatim>\<open>ExecuteExchange\<close> begins
  one.
\<close>

fun begins :: "sql list \<Rightarrow> nat" where
  "begins [] = 0"
| "begins (Begin l # qs) = Suc (begins qs)"
| "begins (q # qs) = begins qs"


text \<open>
  Alice's wallet on a store whose sixth round trip fails with a serialization failure
  (in an exchange that is the \<^verbatim>\<open>COMMIT\<close>) and which accepts everything after it; and an
  exchanger service that is down.
\<close>

definition flaky_commit_wallet :: wallet where
  "flaky_commit_wallet =
     alice_wallet\<lparr>faults := (\<lambda>n. if n = 5 then Some SerializationFailure else None)\<rparr>"

definition rpc_down :: "string \<Rightarrow> string \<Rightarrow> error + real" where
  "rpc_down fromCurrency toCurrency = Inl (ErrDriver Unavailable)"

text \<open>No document of the collection has the status failed.\<close>

definition no_failed :: "consumer \<Rightarrow> bool" where
  "no_failed c \<longleftrightarrow> list_all (\<lambda>d. lt_Status d \<noteq> StatusFailed) (collection c)"

text \<open>
  A consumer with batch size 2 and three attempts on a document store and broker that
  never fail; a parsed transfer, the message it comes from, a message whose payload is
  not JSON, and a decoder that accepts the first payload only.
\<close>

definition example_consumer :: consumer where
  "example_consumer =
     \<lparr>batchSize = 2, retryAttempts = 3, retryDelay = 1000,
      messagesProcessed = 0, messagesFailed = 0,
      collection = [], commit_calls = [], committed = [], sleeps = [],
      n_faults = (\<lambda>_. None), n_calls = 0, clock = 5000\<rparr>"

definition example_transfer :: LargeTransfer where
  "example_transfer =
     \<lparr>lt_UserID = 1, lt_Type = ''deposit'', lt_FromCurrency = ''USD'', lt_ToCurrency = ''USD'',
      lt_Amount = 100000, lt_Timestamp = 4000, lt_ProcessedAt = 0, lt_Status = [],
      lt_ErrorMessage = []\<rparr>"

definition example_message :: Message where
  "example_message = \<lparr>msg_Partition = 0, msg_Offset = 7, msg_Value = ''{deposit}''\<rparr>"

definition poison_message :: Message where
  "poison_message = \<lparr>msg_Partition = 0, msg_Offset = 8, msg_Value = ''not json''\<rparr>"

definition example_unmarshal :: "string \<Rightarrow> KafkaMessage option" where
  "example_unmarshal v =
     (if v = ''{deposit}''
      then Some \<lparr>km_UserID = 1, km_Type = ''deposit'', km_FromCurrency = ''USD'',
                 km_ToCurrency = ''USD'', km_Amount = 100000, km_Timestamp = 4000\<rparr>
      else None)"



section \<open>Auxiliary lemmas: wallet\<close>


lemma row_is_amount [simp]: "row_is u c (b\<lparr>b_Amount := v\<rparr>) = row_is u c b"
  by (simp add: row_is_def)

lemma exec_ok:
  "faults w (calls w) = None \<Longrightarrow>
   exec q w = (None, w\<lparr>statements := statements w @ [q], calls := calls w + 1\<rparr>)"
  by (simp add: exec_def io_def)

lemma io_ok:
  "faults w (calls w) = None \<Longrightarrow> io w = (None, w\<lparr>calls := calls w + 1\<rparr>)"
  by (simp add: io_def)












section \<open>Withdraw\<close>










lemma unique_row:
  "distinct (map row_key rows) \<Longrightarrow> find (row_is u c) rows = Some row \<Longrightarrow>
   b \<in> set rows \<Longrightarrow> row_is u c b \<Longrightarrow> b = row"
proof (induction rows)
  case Nil
  then show ?case by simp
next
  case (Cons x xs)
  show ?case
  proof (cases "row_is u c x")
    case True
    with Cons.prems have "row = x" by simp
    moreover have "b = x"
    proof (rule ccontr)
      assume "b \<noteq> x"
      with Cons.prems have "b \<in> set xs" by simp
      then have "row_key b \<in> set (map row_key xs)" by simp
      moreover have "row_key b = row_key x"
        using True Cons.prems(4) by (simp add: row_key_def row_is_def)
      ultimately show False using Cons.prems(1) by simp
    qed
    ultimately show ?thesis by simp
  next
    case False
    with Cons.prems have "find (row_is u c) xs = Some row" "b \<in> set xs"
      by auto
    with Cons.IH Cons.prems show ?thesis by simp
  qed
qed

lemma exec_update_ok:
  assumes "faults w (calls w) = None"
    and "\<And>b. b \<in> set (balances w) \<Longrightarrow> p b \<Longrightarrow> 0 \<le> f (b_Amount b)"
  shows "exec_update q p f w =
     (None, w\<lparr>statements := statements w @ [q], calls := Suc (calls w),
             balances := map (\<lambda>b. if p b then b\<lparr>b_Amount := f (b_Amount b)\<rparr> else b) (balances w)\<rparr>)"
proof -
  have "\<not> list_ex (\<lambda>b. p b \<and> f (b_Amount b) < 0) (balances w)"
    using assms(2) by (fastforce simp: list_ex_iff)
  then show ?thesis
    using assms(1) by (simp add: exec_update_def exec_ok update_rows_def)
qed

lemma find_same_row:
  "find (row_is u c) rows = Some row \<Longrightarrow>
   map_option b_Amount (find (row_is u c)
      (map (\<lambda>x. if row_is u c x then x\<lparr>b_Amount := f (b_Amount x)\<rparr> else x) rows)) =
   Some (f (b_Amount row))"
  by (induction rows) (auto split: if_splits)

lemma find_other_row_f:
  "(u', c') \<noteq> (u, c) \<Longrightarrow>
   map_option b_Amount (find (row_is u' c')
      (map (\<lambda>x. if row_is u c x then x\<lparr>b_Amount := f (b_Amount x)\<rparr> else x) rows)) =
   map_option b_Amount (find (row_is u' c') rows)"
  by (induction rows) (auto simp: row_is_def)

lemma find_same_row_opt:
  "map_option b_Amount (find (row_is u c)
      (map (\<lambda>x. if row_is u c x then x\<lparr>b_Amount := f (b_Amount x)\<rparr> else x) rows)) =
   map_option f (map_option b_Amount (find (row_is u c) rows))"
  by (induction rows) (auto split: if_splits)

lemma alice_healthy: "healthy alice_wallet"
  by (simp add: healthy_def alice_wallet_def)

lemma alice_store_ok: "store_ok alice_wallet"
  by (simp add: store_ok_def alice_wallet_def row_key_def)

lemma ExecuteExchange_commits:
  assumes "healthy w" and "store_ok w" and "0 \<le> toAmount"
    and row: "find (row_is userID fromCurrency) (balances w) = Some row"
    and le: "fromAmount \<le> b_Amount row"
  shows "ExecuteExchange w userID fromCurrency toCurrency fromAmount toAmount rate =
     (None, w\<lparr>statements := statements w @
              [Begin LevelSerializable, SelectBalanceForUpdate userID fromCurrency,
               UpdateBalanceSub userID fromCurrency fromAmount,
               UpdateBalanceAdd userID toCurrency toAmount,
               InsertTransaction (exchange_row userID fromCurrency toCurrency fromAmount toAmount rate),
               Commit],
            calls := calls w + 6,
            balances := map (\<lambda>b. if row_is userID toCurrency b then b\<lparr>b_Amount := b_Amount b + toAmount\<rparr> else b)
                (map (\<lambda>b. if row_is userID fromCurrency b then b\<lparr>b_Amount := b_Amount b - fromAmount\<rparr> else b) (balances w)),
            transactions := transactions w @
              [exchange_row userID fromCurrency toCurrency fromAmount toAmount rate]\<rparr>)"
proof -
  have h: "\<And>n. calls w \<le> n \<Longrightarrow> faults w n = None"
    using assms(1) by (simp add: healthy_def)
  have uniq: "distinct (map row_key (balances w))" and nonneg: "\<And>b. b \<in> set (balances w) \<Longrightarrow> 0 \<le> b_Amount b"
    using assms(2) by (simp_all add: store_ok_def list_all_iff)
  define bal where "bal = b_Amount row"
  have bal: "b_Amount row = bal" by (simp add: bal_def)
  have le: "fromAmount \<le> bal" using le by (simp add: bal_def)
  define w2 where "w2 = w\<lparr>statements := statements w @ [Begin LevelSerializable, SelectBalanceForUpdate userID fromCurrency],
      calls := calls w + 2\<rparr>"
    have s1: "exec_update (UpdateBalanceSub userID fromCurrency fromAmount)
             (row_is userID fromCurrency) (\<lambda>a. a - fromAmount) w2 =
       (None, w2\<lparr>statements := statements w2 @ [UpdateBalanceSub userID fromCurrency fromAmount],
          calls := Suc (calls w2),
          balances := map (\<lambda>b. if row_is userID fromCurrency b then b\<lparr>b_Amount := b_Amount b - fromAmount\<rparr> else b) (balances w2)\<rparr>)"
    proof (rule exec_update_ok)
      show "faults w2 (calls w2) = None" by (simp add: w2_def h)
    next
      fix b assume "b \<in> set (balances w2)" "row_is userID fromCurrency b"
      then have "b = row" using unique_row [OF uniq row] by (simp add: w2_def)
      then show "0 \<le> b_Amount b - fromAmount" using le bal by simp
    qed
    define w3 where "w3 = w2\<lparr>statements := statements w2 @ [UpdateBalanceSub userID fromCurrency fromAmount],
          calls := Suc (calls w2),
          balances := map (\<lambda>b. if row_is userID fromCurrency b then b\<lparr>b_Amount := b_Amount b - fromAmount\<rparr> else b) (balances w2)\<rparr>"
    have s2: "exec_update (UpdateBalanceAdd userID toCurrency toAmount)
             (row_is userID toCurrency) (\<lambda>a. a + toAmount) w3 =
       (None, w3\<lparr>statements := statements w3 @ [UpdateBalanceAdd userID toCurrency toAmount],
          calls := Suc (calls w3),
          balances := map (\<lambda>b. if row_is userID toCurrency b then b\<lparr>b_Amount := b_Amount b + toAmount\<rparr> else b) (balances w3)\<rparr>)"
    proof (rule exec_update_ok)
      show "faults w3 (calls w3) = None" by (simp add: w3_def w2_def h)
    next
      fix b assume b: "b \<in> set (balances w3)" "row_is userID toCurrency b"
      then obtain b0 where b0: "b0 \<in> set (balances w)"
        and eq: "b = (if row_is userID fromCurrency b0 then b0\<lparr>b_Amount := b_Amount b0 - fromAmount\<rparr> else b0)"
        by (auto simp: w3_def w2_def)
      have "0 \<le> b_Amount b"
      proof (cases "row_is userID fromCurrency b0")
        case True
        then have "b0 = row" using unique_row [OF uniq row b0] by simp
        then show ?thesis using eq True le bal by simp
      next
        case False
        then show ?thesis using eq nonneg [OF b0] by simp
      qed
      then show "0 \<le> b_Amount b + toAmount" using assms(3) by simp
    qed
    show ?thesis
      using le
      by (simp add: ExecuteExchange_def exec_ok h row bal s1 [unfolded w2_def, simplified]
          s2 [unfolded w3_def w2_def, simplified])
qed

section \<open>Deposit\<close>






section \<open>ExecuteExchange\<close>

text \<open>
  Claim C1, as the code has it. On a store that reports no fault and satisfies the
  table constraints, for a non-negative target amount and an existing source row:
  with sufficient funds the exchange sends exactly \<^verbatim>\<open>BEGIN\<close> at serializable isolation,
  one \<^verbatim>\<open>SELECT ... FOR UPDATE\<close> of the source row, the \<^verbatim>\<open>UPDATE\<close> of the source row, the
  \<^verbatim>\<open>UPDATE\<close> of the target row, one \<^verbatim>\<open>INSERT\<close> of a transaction of type exchange with
  status completed and the given rate, and \<^verbatim>\<open>COMMIT\<close>; the source balance drops by the
  source amount and the target balance grows by the target amount. With insufficient
  funds it fails after the \<^verbatim>\<open>SELECT\<close>, rolls back and leaves the rows as they were.
\<close>

theorem exchange_steps:
  assumes "healthy w" and "store_ok w" and "0 \<le> toAmount"
    and "balance_of w userID fromCurrency = Some bal"
  shows "(fromAmount \<le> bal \<longrightarrow>
            fst (ExecuteExchange w userID fromCurrency toCurrency fromAmount toAmount rate) = None \<and>
            statements (snd (ExecuteExchange w userID fromCurrency toCurrency fromAmount toAmount rate)) =
              statements w @
              [Begin LevelSerializable,
               SelectBalanceForUpdate userID fromCurrency,
               UpdateBalanceSub userID fromCurrency fromAmount,
               UpdateBalanceAdd userID toCurrency toAmount,
               InsertTransaction (exchange_row userID fromCurrency toCurrency fromAmount toAmount rate),
               Commit] \<and>
            transactions (snd (ExecuteExchange w userID fromCurrency toCurrency fromAmount toAmount rate)) =
              transactions w @
              [exchange_row userID fromCurrency toCurrency fromAmount toAmount rate] \<and>
            (fromCurrency \<noteq> toCurrency \<longrightarrow>
               balance_of (snd (ExecuteExchange w userID fromCurrency toCurrency fromAmount toAmount rate))
                 userID fromCurrency = Some (bal - fromAmount) \<and>
               balance_of (snd (ExecuteExchange w userID fromCurrency toCurrency fromAmount toAmount rate))
                 userID toCurrency =
               map_option (\<lambda>a. a + toAmount) (balance_of w userID toCurrency))) \<and>
         (bal < fromAmount \<longrightarrow>
            fst (ExecuteExchange w userID fromCurrency toCurrency fromAmount toAmount rate) =
              Some (ErrInsufficientFunds bal fromAmount) \<and>
            statements (snd (ExecuteExchange w userID fromCurrency toCurrency fromAmount toAmount rate)) =
              statements w @
              [Begin LevelSerializable, SelectBalanceForUpdate userID fromCurrency, Rollback] \<and>
            balances (snd (ExecuteExchange w userID fromCurrency toCurrency fromAmount toAmount rate)) =
              balances w \<and>
            transactions (snd (ExecuteExchange w userID fromCurrency toCurrency fromAmount toAmount rate)) =
              transactions w) \<and>
         t_Type (exchange_row userID fromCurrency toCurrency fromAmount toAmount rate) = ''exchange'' \<and>
         t_Status (exchange_row userID fromCurrency toCurrency fromAmount toAmount rate) = ''completed'' \<and>
         t_ExchangeRate (exchange_row userID fromCurrency toCurrency fromAmount toAmount rate) = rate"
proof -
  let ?E = "ExecuteExchange w userID fromCurrency toCurrency fromAmount toAmount rate"
  let ?tx = "exchange_row userID fromCurrency toCurrency fromAmount toAmount rate"
  from assms(4) obtain row where row: "find (row_is userID fromCurrency) (balances w) = Some row"
    and bal: "b_Amount row = bal"
    by (auto simp: balance_of_def)
  have h: "\<And>n. calls w \<le> n \<Longrightarrow> faults w n = None"
    using assms(1) by (simp add: healthy_def)
  have uniq: "distinct (map row_key (balances w))" and nonneg: "\<And>b. b \<in> set (balances w) \<Longrightarrow> 0 \<le> b_Amount b"
    using assms(2) by (simp_all add: store_ok_def list_all_iff)
  define w2 where "w2 = w\<lparr>statements := statements w @ [Begin LevelSerializable, SelectBalanceForUpdate userID fromCurrency],
      calls := calls w + 2\<rparr>"
  have rowtx: "t_Type ?tx = ''exchange'' \<and> t_Status ?tx = ''completed'' \<and> t_ExchangeRate ?tx = rate"
    by (simp add: exchange_row_def TransactionTypeExchange_def TransactionStatusCompleted_def)
  have low: "bal < fromAmount \<Longrightarrow> ?E = (Some (ErrInsufficientFunds bal fromAmount),
      w\<lparr>statements := statements w @ [Begin LevelSerializable, SelectBalanceForUpdate userID fromCurrency, Rollback],
        calls := calls w + 3\<rparr>)"
    by (simp add: ExecuteExchange_def exec_ok h row bal abort_def discard_def)
  have high: "?E = (None, w\<lparr>statements := statements w @
              [Begin LevelSerializable, SelectBalanceForUpdate userID fromCurrency,
               UpdateBalanceSub userID fromCurrency fromAmount,
               UpdateBalanceAdd userID toCurrency toAmount,
               InsertTransaction ?tx, Commit],
            calls := calls w + 6,
            balances := map (\<lambda>b. if row_is userID toCurrency b then b\<lparr>b_Amount := b_Amount b + toAmount\<rparr> else b)
                (map (\<lambda>b. if row_is userID fromCurrency b then b\<lparr>b_Amount := b_Amount b - fromAmount\<rparr> else b) (balances w)),
            transactions := transactions w @ [?tx]\<rparr>)" if le: "fromAmount \<le> bal"
    using ExecuteExchange_commits [OF assms(1) assms(2) assms(3) row, of fromAmount toCurrency rate] that bal
    by simp
  let ?sub = "map (\<lambda>b. if row_is userID fromCurrency b then b\<lparr>b_Amount := b_Amount b - fromAmount\<rparr> else b) (balances w)"
  have bf: "balance_of (snd ?E) userID fromCurrency = Some (bal - fromAmount)"
    if "fromCurrency \<noteq> toCurrency" "fromAmount \<le> bal"
  proof -
    have "balance_of (snd ?E) userID fromCurrency =
        map_option b_Amount (find (row_is userID fromCurrency) ?sub)"
      using that find_other_row_f [of userID fromCurrency userID toCurrency "\<lambda>a. a + toAmount" ?sub]
      by (simp add: high balance_of_def del: map_map)
    also have "\<dots> = Some (bal - fromAmount)"
      using find_same_row [OF row, of "\<lambda>a. a - fromAmount"] by (simp add: bal)
    finally show ?thesis .
  qed
  have bt: "balance_of (snd ?E) userID toCurrency =
      map_option (\<lambda>a. a + toAmount) (balance_of w userID toCurrency)"
    if "fromCurrency \<noteq> toCurrency" "fromAmount \<le> bal"
  proof -
    have "balance_of (snd ?E) userID toCurrency =
        map_option (\<lambda>a. a + toAmount) (map_option b_Amount (find (row_is userID toCurrency) ?sub))"
      using that find_same_row_opt [of userID toCurrency "\<lambda>a. a + toAmount" ?sub]
      by (simp add: high balance_of_def del: map_map)
    also have "map_option b_Amount (find (row_is userID toCurrency) ?sub) =
        map_option b_Amount (find (row_is userID toCurrency) (balances w))"
      using that find_other_row_f [of userID toCurrency userID fromCurrency "\<lambda>a. a - fromAmount" "balances w"]
      by simp
    finally show ?thesis by (simp add: balance_of_def)
  qed
  show ?thesis
    using rowtx bf bt by (auto simp: high low)
qed


theorem exchange_steps_witness:
  "healthy alice_wallet \<and> store_ok alice_wallet \<and> (0::real) \<le> 92 / 10 \<and>
   balance_of alice_wallet 1 ''USD'' = Some 100 \<and>
   fst (ExecuteExchange alice_wallet 1 ''USD'' ''EUR'' 10 (92 / 10) (92 / 100)) = None \<and>
   statements (snd (ExecuteExchange alice_wallet 1 ''USD'' ''EUR'' 10 (92 / 10) (92 / 100))) =
     [Begin LevelSerializable, SelectBalanceForUpdate 1 ''USD'',
      UpdateBalanceSub 1 ''USD'' 10, UpdateBalanceAdd 1 ''EUR'' (92 / 10),
      InsertTransaction (exchange_row 1 ''USD'' ''EUR'' 10 (92 / 10) (92 / 100)), Commit] \<and>
   balance_of (snd (ExecuteExchange alice_wallet 1 ''USD'' ''EUR'' 10 (92 / 10) (92 / 100))) 1 ''USD'' = Some 90 \<and>
   fst (ExecuteExchange alice_wallet 1 ''USD'' ''EUR'' 1000 920 (92 / 100)) =
     Some (ErrInsufficientFunds 100 1000) \<and>
   statements (snd (ExecuteExchange alice_wallet 1 ''USD'' ''EUR'' 1000 920 (92 / 100))) =
     [Begin LevelSerializable, SelectBalanceForUpdate 1 ''USD'', Rollback]"
proof -
  have usd: "balance_of alice_wallet 1 ''USD'' = Some 100"
    by (simp add: balance_of_def alice_wallet_def row_is_def)
  have st: "statements alice_wallet = []"
    by (simp add: alice_wallet_def)
  show ?thesis
    using exchange_steps [OF alice_healthy alice_store_ok _ usd, of "92 / 10" 10 "''EUR''" "92 / 100"]
      exchange_steps [OF alice_healthy alice_store_ok _ usd, of 920 1000 "''EUR''" "92 / 100"]
      alice_healthy alice_store_ok usd
    by (simp add: st)
qed


text \<open>
  Claim C1 as stated fails: a successful exchange from USD to EUR selects only the USD
  row \<^verbatim>\<open>FOR UPDATE\<close>, not the EUR row and the USD row in ascending order.
\<close>

theorem exchange_locks_counterexample:
  "fst (ExecuteExchange alice_wallet 1 ''USD'' ''EUR'' 10 (92 / 10) (92 / 100)) = None \<and>
   locked_rows (statements (snd (ExecuteExchange alice_wallet 1 ''USD'' ''EUR'' 10 (92 / 10) (92 / 100)))) =
     [(1, ''USD'')] \<and>
   locked_rows (statements (snd (ExecuteExchange alice_wallet 1 ''USD'' ''EUR'' 10 (92 / 10) (92 / 100)))) \<noteq>
     [(1, ''EUR''), (1, ''USD'')]"
  by (simp add: ExecuteExchange_def exec_update_def exec_def io_def update_rows_def row_is_def
      alice_wallet_def exchange_row_def)


section \<open>ExchangeCurrency and serialization failures\<close>

lemma begins_append: "begins (xs @ ys) = begins xs + begins ys"
  by (induction xs rule: begins.induct) auto

lemma exec_statements:
  "statements (snd (exec q w)) = statements w @ [q]"
  by (simp add: exec_def io_def)

lemma abort_statements:
  "statements (snd (abort w0 w e)) = statements w @ [Rollback]"
  by (simp add: abort_def discard_def exec_def io_def)

lemma ExecuteExchange_begins:
  "begins (statements (snd (ExecuteExchange w u f t a b r))) = Suc (begins (statements w))"
  by (simp add: ExecuteExchange_def exec_update_def exec_def io_def abort_def discard_def
      begins_append split: option.splits sum.splits prod.splits)


lemma Send_statements:
  "statements (snd (SendLargeTransferNotification w u ty f t a)) = statements w"
  by (simp add: SendLargeTransferNotification_def io_def Let_def split: option.splits)

lemma GetUserBalances_statements:
  "statements (snd (GetUserBalances w u)) = statements w @ [SelectAllBalances u]"
  by (simp add: GetUserBalances_def GetAllBalances_def exec_def io_def split: option.splits)

text \<open>
  Claim C4, as the code has it. An exchange call that passes validation and obtains a
  rate calls \<^verbatim>\<open>ExecuteExchange\<close> exactly once (its trace begins exactly one
  transaction), and whatever error that one call reports, a serialization failure
  included, is returned to the caller at once, wrapped as a failed exchange, in the
  state that one call left.
\<close>

theorem exchange_single_attempt:
  assumes "0 < amount" and "fromCurrency \<noteq> toCurrency"
    and "(case GetRate ratesCache h fromCurrency toCurrency now of
            (rate, True) \<Rightarrow> Inr rate
          | (_, False) \<Rightarrow> GetExchangeRateForCurrency rpc fromCurrency toCurrency) = Inr rate"
  shows "begins (statements (snd (ExchangeCurrency ratesCache h now rpc w userID
                                    fromCurrency toCurrency amount))) =
           Suc (begins (statements w)) \<and>
         (\<forall>e w'. ExecuteExchange w userID fromCurrency toCurrency amount (rate * amount) rate =
                    (Some e, w') \<longrightarrow>
                  ExchangeCurrency ratesCache h now rpc w userID fromCurrency toCurrency amount =
                    (Inl (ErrWrap ''failed to execute exchange'' e), w'))"
proof -
  let ?E = "ExecuteExchange w userID fromCurrency toCurrency amount (rate * amount) rate"
  have unf: "ExchangeCurrency ratesCache h now rpc w userID fromCurrency toCurrency amount =
      (case ?E of
        (Some e, w1) \<Rightarrow> (Inl (ErrWrap ''failed to execute exchange'' e), w1)
      | (None, w1) \<Rightarrow>
          (let w2 = snd (SendLargeTransferNotification w1 userID ''exchange''
                           fromCurrency toCurrency amount)
           in case GetUserBalances w2 userID of
                (Inl e, w3) \<Rightarrow> (Inr (rate * amount, None), w3)
              | (Inr newBalances, w3) \<Rightarrow> (Inr (rate * amount, Some newBalances), w3)))"
    using assms by (simp add: ExchangeCurrency_def)
  obtain r w1 where E: "?E = (r, w1)" by (cases ?E)
  have b1: "begins (statements w1) = Suc (begins (statements w))"
    using ExecuteExchange_begins [of w userID fromCurrency toCurrency amount "rate * amount" rate]
    by (simp add: E)
  have "begins (statements (snd (ExchangeCurrency ratesCache h now rpc w userID
                                    fromCurrency toCurrency amount))) =
           Suc (begins (statements w))"
  proof (cases r)
    case None
    obtain x w3 where G: "GetUserBalances (snd (SendLargeTransferNotification w1 userID ''exchange''
                           fromCurrency toCurrency amount)) userID = (x, w3)"
      by (cases "GetUserBalances (snd (SendLargeTransferNotification w1 userID ''exchange''
                           fromCurrency toCurrency amount)) userID")
    have "statements w3 = statements w1 @ [SelectAllBalances userID]"
      using GetUserBalances_statements [of "snd (SendLargeTransferNotification w1 userID ''exchange''
                           fromCurrency toCurrency amount)" userID]
      by (simp add: G Send_statements)
    then show ?thesis
      using None b1 by (simp add: unf E G Let_def begins_append split: sum.splits)
  next
    case (Some e)
    then show ?thesis using b1 by (simp add: unf E)
  qed
  then show ?thesis by (simp add: unf)
qed

theorem exchange_single_attempt_witness:
  "(0::real) < 10 \<and> ''USD'' \<noteq> ''EUR'' \<and>
   (case GetRate (Set_rates example_cache (Some 0) 1000) example_heap ''USD'' ''EUR'' 1200 of
      (rate, True) \<Rightarrow> Inr rate
    | (_, False) \<Rightarrow> GetExchangeRateForCurrency rpc_down ''USD'' ''EUR'') = Inr (92 / 100) \<and>
   begins (statements (snd (ExchangeCurrency (Set_rates example_cache (Some 0) 1000) example_heap
                              1200 rpc_down flaky_commit_wallet 1 ''USD'' ''EUR'' 10))) = 1 \<and>
   fst (ExecuteExchange flaky_commit_wallet 1 ''USD'' ''EUR'' 10 (92 / 100 * 10) (92 / 100)) =
     Some (ErrWrap ''failed to commit transaction'' (ErrDriver SerializationFailure)) \<and>
   fst (ExchangeCurrency (Set_rates example_cache (Some 0) 1000) example_heap
          1200 rpc_down flaky_commit_wallet 1 ''USD'' ''EUR'' 10) =
     Inl (ErrWrap ''failed to execute exchange''
            (ErrWrap ''failed to commit transaction'' (ErrDriver SerializationFailure)))"
proof -
  have r: "(case GetRate (Set_rates example_cache (Some 0) 1000) example_heap ''USD'' ''EUR'' 1200 of
      (rate, True) \<Rightarrow> Inr rate
    | (_, False) \<Rightarrow> GetExchangeRateForCurrency rpc_down ''USD'' ''EUR'') = Inr (92 / 100)"
    by (simp add: GetRate_def Set_rates_def example_cache_def example_heap_def deref_def)
  obtain w' where e: "ExecuteExchange flaky_commit_wallet 1 ''USD'' ''EUR'' 10 (92 / 100 * 10) (92 / 100) =
     (Some (ErrWrap ''failed to commit transaction'' (ErrDriver SerializationFailure)), w')"
    by (simp add: ExecuteExchange_def exec_update_def exec_def io_def update_rows_def row_is_def
        discard_def flaky_commit_wallet_def alice_wallet_def)
  have s: "statements flaky_commit_wallet = []"
    by (simp add: flaky_commit_wallet_def alice_wallet_def)
  have t: "(0::real) < 10" "''USD'' \<noteq> ''EUR''"
    by simp_all
  note T = exchange_single_attempt [OF t r, of flaky_commit_wallet 1]
  have a: "begins (statements (snd (ExchangeCurrency (Set_rates example_cache (Some 0) 1000)
              example_heap 1200 rpc_down flaky_commit_wallet 1 ''USD'' ''EUR'' 10))) = 1"
    using T [THEN conjunct1] by (simp add: s)
  have b: "ExchangeCurrency (Set_rates example_cache (Some 0) 1000)
              example_heap 1200 rpc_down flaky_commit_wallet 1 ''USD'' ''EUR'' 10 =
     (Inl (ErrWrap ''failed to execute exchange''
            (ErrWrap ''failed to commit transaction'' (ErrDriver SerializationFailure))), w')"
    using T [THEN conjunct2] e by blast
  have c: "fst (ExecuteExchange flaky_commit_wallet 1 ''USD'' ''EUR'' 10 (92 / 100 * 10) (92 / 100)) =
     Some (ErrWrap ''failed to commit transaction'' (ErrDriver SerializationFailure))"
    using e by simp
  have d: "fst (ExchangeCurrency (Set_rates example_cache (Some 0) 1000)
              example_heap 1200 rpc_down flaky_commit_wallet 1 ''USD'' ''EUR'' 10) =
     Inl (ErrWrap ''failed to execute exchange''
            (ErrWrap ''failed to commit transaction'' (ErrDriver SerializationFailure)))"
    by (simp add: b)
  from t r a c d show ?thesis by blast
qed


text \<open>
  Claim C4 as stated fails: when the first \<^verbatim>\<open>COMMIT\<close> meets a serialization failure the
  caller gets the error after a single attempt, although the same exchange run again on
  the resulting state succeeds.
\<close>

theorem exchange_no_retry_counterexample:
  "fst (ExchangeCurrency (Set_rates example_cache (Some 0) 1000) example_heap
          1200 rpc_down flaky_commit_wallet 1 ''USD'' ''EUR'' 10) =
     Inl (ErrWrap ''failed to execute exchange''
            (ErrWrap ''failed to commit transaction'' (ErrDriver SerializationFailure))) \<and>
   begins (statements (snd (ExchangeCurrency (Set_rates example_cache (Some 0) 1000) example_heap
                              1200 rpc_down flaky_commit_wallet 1 ''USD'' ''EUR'' 10))) = 1 \<and>
   fst (ExecuteExchange
          (snd (ExchangeCurrency (Set_rates example_cache (Some 0) 1000) example_heap
                  1200 rpc_down flaky_commit_wallet 1 ''USD'' ''EUR'' 10))
          1 ''USD'' ''EUR'' 10 (92 / 100 * 10) (92 / 100)) = None"
  by (simp add: ExchangeCurrency_def GetRate_def Set_rates_def example_cache_def example_heap_def
      deref_def ExecuteExchange_def exec_update_def exec_def io_def update_rows_def row_is_def
      discard_def flaky_commit_wallet_def alice_wallet_def)

section \<open>AuthenticateUser\<close>

text \<open>
  Claim C7, as the code has it. Every failure of the authentication returns the same
  invalid-username-or-password error; the password hash is compared exactly when the
  lookup returned a user row, so for an absent user (or a failed lookup) no comparison
  is made.
\<close>

theorem authenticate_failures:
  "(isl (fst (AuthenticateUser bcrypt w username password)) \<longrightarrow>
      fst (AuthenticateUser bcrypt w username password) = Inl ErrInvalidUsernameOrPassword) \<and>
   hash_compares (snd (AuthenticateUser bcrypt w username password)) =
     hash_compares w @
     (case (faults w (calls w), find (\<lambda>u. u_Username u = username) (users w)) of
        (None, Some user) \<Rightarrow> [(u_PasswordHash user, password)]
      | _ \<Rightarrow> [])"
  by (simp add: AuthenticateUser_def GetUserByUsername_def exec_def io_def Let_def
      split: option.splits)

theorem authenticate_failures_witness:
  "fst (AuthenticateUser example_bcrypt alice_wallet ''alice'' ''wrong'') =
     Inl ErrInvalidUsernameOrPassword \<and>
   hash_compares (snd (AuthenticateUser example_bcrypt alice_wallet ''alice'' ''wrong'')) =
     [(''hash-of-pw12345'', ''wrong'')] \<and>
   fst (AuthenticateUser example_bcrypt alice_wallet ''mallory'' ''wrong'') =
     Inl ErrInvalidUsernameOrPassword"
proof -
  have a: "isl (fst (AuthenticateUser example_bcrypt alice_wallet ''alice'' ''wrong''))"
    by (simp add: AuthenticateUser_def GetUserByUsername_def exec_def io_def Let_def
        alice_wallet_def example_bcrypt_def)
  have b: "isl (fst (AuthenticateUser example_bcrypt alice_wallet ''mallory'' ''wrong''))"
    by (simp add: AuthenticateUser_def GetUserByUsername_def exec_def io_def Let_def
        alice_wallet_def example_bcrypt_def)
  have c: "faults alice_wallet (calls alice_wallet) = None"
    "find (\<lambda>u. u_Username u = ''alice'') (users alice_wallet) = Some (hd (users alice_wallet))"
    "u_PasswordHash (hd (users alice_wallet)) = ''hash-of-pw12345''"
    "hash_compares alice_wallet = []"
    by (simp_all add: alice_wallet_def)
  show ?thesis
    using authenticate_failures [of example_bcrypt alice_wallet "''alice''" "''wrong''"]
      authenticate_failures [of example_bcrypt alice_wallet "''mallory''" "''wrong''"] a b
    by (simp add: c)
qed


text \<open>
  Claim C7 as stated fails: for an absent user the error is returned without any hash
  comparison, while a wrong password for an existing user costs one comparison.
\<close>

theorem authenticate_no_sentinel_counterexample:
  "fst (AuthenticateUser example_bcrypt alice_wallet ''mallory'' ''wrong'') =
     Inl ErrInvalidUsernameOrPassword \<and>
   hash_compares (snd (AuthenticateUser example_bcrypt alice_wallet ''mallory'' ''wrong'')) = [] \<and>
   fst (AuthenticateUser example_bcrypt alice_wallet ''alice'' ''wrong'') =
     Inl ErrInvalidUsernameOrPassword \<and>
   length (hash_compares (snd (AuthenticateUser example_bcrypt alice_wallet ''alice'' ''wrong''))) = 1"
  by (simp add: AuthenticateUser_def GetUserByUsername_def exec_def io_def Let_def
      alice_wallet_def example_bcrypt_def)


section \<open>Rates cache\<close>

text \<open>
  Claim C8. For a cache with a positive TTL, after \<^verbatim>\<open>Set\<close> of a valid map reference at
  time \<open>now\<close>: \<^verbatim>\<open>Get\<close> at the same time, and at any time within the TTL, returns the
  valid flag with a newly allocated map whose contents equal those of the map set,
  which is a different reference from it, so that writing to the returned map leaves the
  cached one as it was; once more than the TTL has passed \<^verbatim>\<open>Get\<close> returns nil and
  invalid; and \<^verbatim>\<open>GetRate\<close> is valid exactly when the time is within the TTL and the key
  FROM_TO is in the map.
\<close>

theorem rates_cache_ttl:
  assumes "0 < ttl c" and "valid_ref h m"
  shows "Get_rates (Set_rates c m now) h now = ((Some (length h), True), h @ [deref h m]) \<and>
         (now' - now \<le> ttl c \<longrightarrow>
            Get_rates (Set_rates c m now) h now' = ((Some (length h), True), h @ [deref h m])) \<and>
         deref (h @ [deref h m]) (Some (length h)) = deref h m \<and>
         Some (length h) \<noteq> m \<and>
         deref ((h @ [deref h m])[length h := x]) m = deref h m \<and>
         (now' - now > ttl c \<longrightarrow> Get_rates (Set_rates c m now) h now' = ((None, False), h)) \<and>
         (snd (GetRate (Set_rates c m now) h fromCurrency toCurrency now') \<longleftrightarrow>
            now' - now \<le> ttl c \<and> fromCurrency @ ''_'' @ toCurrency \<in> dom (deref h m))"
proof -
  have a: "Get_rates (Set_rates c m now) h now = ((Some (length h), True), h @ [deref h m])"
    using assms(1) by (simp add: Get_rates_def Set_rates_def)
  have b: "now' - now \<le> ttl c \<longrightarrow>
            Get_rates (Set_rates c m now) h now' = ((Some (length h), True), h @ [deref h m])"
    by (simp add: Get_rates_def Set_rates_def)
  have c: "deref (h @ [deref h m]) (Some (length h)) = deref h m"
    by (simp add: deref_def)
  have d: "Some (length h) \<noteq> m"
    using assms(2) by (auto simp: valid_ref_def)
  have e: "deref ((h @ [deref h m])[length h := x]) m = deref h m"
    using assms(2) by (auto simp: valid_ref_def deref_def nth_append split: option.splits)
  have f: "now' - now > ttl c \<longrightarrow> Get_rates (Set_rates c m now) h now' = ((None, False), h)"
    by (simp add: Get_rates_def Set_rates_def)
  have g: "snd (GetRate (Set_rates c m now) h fromCurrency toCurrency now') \<longleftrightarrow>
            now' - now \<le> ttl c \<and> fromCurrency @ ''_'' @ toCurrency \<in> dom (deref h m)"
    by (auto simp: GetRate_def Set_rates_def split: option.splits)
  show ?thesis using a b c d e f g by blast
qed

theorem rates_cache_ttl_witness:
  "0 < ttl example_cache \<and> valid_ref example_heap (Some 0) \<and>
   Get_rates (Set_rates example_cache (Some 0) 1000) example_heap 1000 =
     ((Some 1, True), example_heap @ [deref example_heap (Some 0)]) \<and>
   (1200 - 1000 \<le> ttl example_cache \<and>
    Get_rates (Set_rates example_cache (Some 0) 1000) example_heap 1200 =
     ((Some 1, True), example_heap @ [deref example_heap (Some 0)])) \<and>
   (1301 - 1000 > ttl example_cache \<and>
    Get_rates (Set_rates example_cache (Some 0) 1000) example_heap 1301 = ((None, False), example_heap)) \<and>
   snd (GetRate (Set_rates example_cache (Some 0) 1000) example_heap ''USD'' ''EUR'' 1200) \<and>
   \<not> snd (GetRate (Set_rates example_cache (Some 0) 1000) example_heap ''USD'' ''RUB'' 1200) \<and>
   \<not> snd (GetRate (Set_rates example_cache (Some 0) 1000) example_heap ''USD'' ''EUR'' 1301)"
proof -
  have t: "0 < ttl example_cache" "ttl example_cache = 300"
    by (simp_all add: example_cache_def)
  have v: "valid_ref example_heap (Some 0)" "length example_heap = 1"
    by (simp_all add: valid_ref_def example_heap_def)
  have d: "''USD_EUR'' \<in> dom (deref example_heap (Some 0))"
    "''USD_RUB'' \<notin> dom (deref example_heap (Some 0))"
    by (simp_all add: deref_def example_heap_def)
  show ?thesis
    using rates_cache_ttl [OF t(1) v(1), of 1000 1000 Map.empty "''USD''" "''EUR''"]
      rates_cache_ttl [OF t(1) v(1), of 1000 1200 Map.empty "''USD''" "''EUR''"]
      rates_cache_ttl [OF t(1) v(1), of 1000 1200 Map.empty "''USD''" "''RUB''"]
      rates_cache_ttl [OF t(1) v(1), of 1000 1301 Map.empty "''USD''" "''EUR''"]
      t v d
    by simp
qed



section \<open>Large-transfer notification\<close>













section \<open>Document store: status of stored documents\<close>

lemma stamp_fields:
  "lt_Status (stamp now t) = ''processed''" "lt_ProcessedAt (stamp now t) = now"
  by (simp_all add: stamp_def StatusProcessed_def)

lemma stamp_not_failed: "lt_Status (stamp now t) \<noteq> StatusFailed"
  by (simp add: stamp_def StatusProcessed_def StatusFailed_def)

lemma SaveTransfer_collection:
  "collection (snd (snd (SaveTransfer c t))) =
     collection c @ (if n_faults c (n_calls c) = None then [stamp (clock c) t] else [])"
  by (simp add: SaveTransfer_def n_io_def Let_def split: option.splits)

lemma SaveTransferBatch_collection:
  "\<exists>k. collection (snd (snd (SaveTransferBatch c ts))) =
     collection c @ take k (map (stamp (clock c)) ts)"
proof (cases "ts = [] \<or> n_faults c (n_calls c) = None")
  case True
  then show ?thesis
    by (intro exI [of _ "length ts"])
      (auto simp: SaveTransferBatch_def n_io_def Let_def)
next
  case False
  then obtain f where "n_faults c (n_calls c) = Some f" "ts \<noteq> []" by auto
  then show ?thesis
    by (intro exI [of _ "case f of PartialWrite k \<Rightarrow> k | _ \<Rightarrow> 0"])
      (simp add: SaveTransferBatch_def n_io_def Let_def)
qed

lemma no_failed_append:
  "no_failed c \<Longrightarrow> collection c' = collection c @ new \<Longrightarrow>
   (\<And>d. d \<in> set new \<Longrightarrow> lt_Status d \<noteq> StatusFailed) \<Longrightarrow> no_failed c'"
  by (auto simp: no_failed_def list_all_iff)

lemma no_failed_SaveTransfer: "no_failed c \<Longrightarrow> no_failed (snd (snd (SaveTransfer c t)))"
  by (erule no_failed_append [OF _ SaveTransfer_collection]) (auto simp: stamp_not_failed split: if_splits)

lemma no_failed_SaveTransferBatch:
  assumes "no_failed c"
  shows "no_failed (snd (snd (SaveTransferBatch c ts)))"
proof -
  obtain k where k: "collection (snd (snd (SaveTransferBatch c ts))) =
     collection c @ take k (map (stamp (clock c)) ts)"
    using SaveTransferBatch_collection by blast
  show ?thesis
  proof (rule no_failed_append [OF assms k])
    fix d assume "d \<in> set (take k (map (stamp (clock c)) ts))"
    then have "d \<in> set (map (stamp (clock c)) ts)" by (rule in_set_takeD)
    then show "lt_Status d \<noteq> StatusFailed" by (auto simp: stamp_not_failed)
  qed
qed

lemma no_failed_sink_run: "no_failed c \<Longrightarrow> no_failed (sink_run ops c)"
  by (induction ops c rule: sink_run.induct)
    (simp_all add: no_failed_SaveTransfer no_failed_SaveTransferBatch)

lemma no_failed_frame:
  "collection c' = collection c \<Longrightarrow> no_failed c \<Longrightarrow> no_failed c'"
  by (simp add: no_failed_def)

lemma no_failed_save_loop:
  "no_failed c \<Longrightarrow> no_failed (snd (save_loop R c batch attempt err))"
proof (induction R c batch attempt err rule: save_loop.induct)
  case (1 R c batch attempt err)
  show ?case
  proof (cases "attempt < R")
    case False
    then show ?thesis using "1.prems" by (subst save_loop.simps) simp
  next
    case True
    obtain r batch' c' where S: "SaveTransferBatch c batch = (r, batch', c')"
      by (cases "SaveTransferBatch c batch")
    have nf: "no_failed c'"
      using no_failed_SaveTransferBatch [OF "1.prems", of batch] by (simp add: S)
    show ?thesis
    proof (cases r)
      case None
      then show ?thesis using True nf by (subst save_loop.simps) (simp add: S)
    next
      case (Some e)
      have "no_failed (if attempt < R - 1 then sleep c' else c')"
        using nf by (simp add: no_failed_def sleep_def)
      from "1.IH" [OF True S [symmetric] _ _ this] Some
      have "no_failed (snd (save_loop R (if attempt < R - 1 then sleep c' else c') batch'
                         (attempt + 1) (Some e)))"
        by simp
      then show ?thesis using True Some by (subst save_loop.simps) (simp add: S)
    qed
  qed
qed

lemma no_failed_flushBatch: "no_failed c \<Longrightarrow> no_failed (flushBatch c batch msgs)"
proof -
  assume nf: "no_failed c"
  obtain r c1 where L: "save_loop (retryAttempts c) c batch 0 None = (r, c1)"
    by (cases "save_loop (retryAttempts c) c batch 0 None")
  have n1: "no_failed c1"
    using no_failed_save_loop [OF nf, of "retryAttempts c" batch 0 None] by (simp add: L)
  show ?thesis
    using nf n1
    by (auto simp: flushBatch_def L incrementFailed_def incrementProcessed_def CommitMessages_def
        n_io_def no_failed_def split: option.splits)
qed

lemma no_failed_processMessages:
  "no_failed c \<Longrightarrow> no_failed (snd (snd (processMessages um evs batch kms c)))"
proof (induction um evs batch kms c rule: processMessages.induct)
  case (5 unmarshal msg evs batch kafkaMessages c)
  have "no_failed (snd (CommitMessages (incrementFailed c) [msg]))"
    using "5.prems"
    by (simp add: CommitMessages_def incrementFailed_def n_io_def no_failed_def split: option.splits)
  with 5 show ?case
    by (auto simp: no_failed_flushBatch split: sum.splits)
qed (simp_all add: no_failed_flushBatch)

lemma aggregate_no_failed:
  "list_all (\<lambda>d. lt_Status d \<noteq> StatusFailed) docs \<Longrightarrow> TotalFailed (aggregate docs) = 0"
  by (simp add: aggregate_def list_all_iff filter_empty_conv [THEN iffD2])

lemma GetStatistics_no_failed:
  "no_failed c \<Longrightarrow> GetStatistics c = (Inr st, c') \<Longrightarrow> TotalFailed st = 0"
  by (auto simp: GetStatistics_def n_io_def no_failed_def aggregate_no_failed
      split: option.splits if_splits)


text \<open>
  Claim C10. \<^verbatim>\<open>SaveTransfer\<close> and \<^verbatim>\<open>SaveTransferBatch\<close> add to the collection only documents
  stamped with the status processed and the time of the call. So from a collection
  without failed documents, after any sequence of the two save calls, and after any run
  of a consumer worker (which writes through \<^verbatim>\<open>SaveTransferBatch\<close> only), the statistics
  that \<^verbatim>\<open>GetStatistics\<close> returns have a failed total of zero.
\<close>

theorem stored_documents_processed:
  assumes "no_failed c"
  shows "collection (snd (snd (SaveTransfer c t))) =
           collection c @ (if n_faults c (n_calls c) = None then [stamp (clock c) t] else []) \<and>
         (\<exists>k. collection (snd (snd (SaveTransferBatch c ts))) =
                collection c @ take k (map (stamp (clock c)) ts)) \<and>
         lt_Status (stamp now t) = ''processed'' \<and> lt_ProcessedAt (stamp now t) = now \<and>
         (\<forall>st c'. GetStatistics (sink_run ops c) = (Inr st, c') \<longrightarrow> TotalFailed st = 0) \<and>
         (\<forall>st c'. GetStatistics (snd (snd (processMessages unmarshal evs batch kafkaMessages c))) =
                    (Inr st, c') \<longrightarrow> TotalFailed st = 0)"
  using SaveTransfer_collection [of c t] SaveTransferBatch_collection [of c ts]
    stamp_fields [of now t]
    GetStatistics_no_failed [OF no_failed_sink_run [OF assms, of ops]]
    GetStatistics_no_failed [OF no_failed_processMessages [OF assms, of unmarshal evs batch kafkaMessages]]
  by blast

theorem stored_documents_processed_witness:
  "no_failed example_consumer \<and>
   collection (snd (snd (SaveTransfer example_consumer example_transfer))) =
     [stamp 5000 example_transfer] \<and>
   lt_Status (stamp 5000 example_transfer) = ''processed'' \<and>
   lt_ProcessedAt (stamp 5000 example_transfer) = 5000 \<and>
   fst (GetStatistics (sink_run [SaveOne example_transfer,
                                 SaveBatch [example_transfer, example_transfer]] example_consumer)) =
     Inr \<lparr>TotalProcessed = 3, TotalFailed = 0, LastProcessedAt = 5000,
          AverageAmount = 100000, TotalAmount = 300000, ProcessingRate = 0\<rparr>"
proof -
  have nf: "no_failed example_consumer"
    by (simp add: no_failed_def example_consumer_def)
  have f: "n_faults example_consumer (n_calls example_consumer) = None"
    "clock example_consumer = 5000" "collection example_consumer = []"
    by (simp_all add: example_consumer_def)
  note T = stored_documents_processed [OF nf, of example_transfer _ 5000
      "[SaveOne example_transfer, SaveBatch [example_transfer, example_transfer]]"]
  obtain st c' where g: "GetStatistics (sink_run [SaveOne example_transfer,
        SaveBatch [example_transfer, example_transfer]] example_consumer) = (Inr st, c')"
    and st: "st = \<lparr>TotalProcessed = 3, TotalFailed = TotalFailed st, LastProcessedAt = 5000,
          AverageAmount = 100000, TotalAmount = 300000, ProcessingRate = 0\<rparr>"
    by (simp add: GetStatistics_def SaveTransfer_def SaveTransferBatch_def n_io_def Let_def
        aggregate_def stamp_def example_consumer_def example_transfer_def
        StatusProcessed_def StatusFailed_def)
  have "TotalFailed st = 0"
    using T g by blast
  with st have "st = \<lparr>TotalProcessed = 3, TotalFailed = 0, LastProcessedAt = 5000,
          AverageAmount = 100000, TotalAmount = 300000, ProcessingRate = 0\<rparr>"
    by simp
  then have G: "fst (GetStatistics (sink_run [SaveOne example_transfer,
        SaveBatch [example_transfer, example_transfer]] example_consumer)) =
     Inr \<lparr>TotalProcessed = 3, TotalFailed = 0, LastProcessedAt = 5000,
          AverageAmount = 100000, TotalAmount = 300000, ProcessingRate = 0\<rparr>"
    by (simp only: g fst_conv)
  have A: "collection (snd (snd (SaveTransfer example_consumer example_transfer))) =
     [stamp 5000 example_transfer]"
    using T [THEN conjunct1] by (simp add: f)
  have B: "lt_Status (stamp 5000 example_transfer) = ''processed''"
    "lt_ProcessedAt (stamp 5000 example_transfer) = 5000"
    using T by blast+
  from nf A B G show ?thesis by blast
qed

section \<open>Consumer: unparseable messages\<close>

text \<open>
  Claim C9. When the payload of a received message does not parse, the worker adds one
  to the failure counter, calls \<^verbatim>\<open>CommitMessages\<close> with that single message (the broker
  records the offset unless the commit itself fails, which is only logged), leaves its
  batch and the collection as they were, and goes on with the next event.
\<close>

theorem poison_message_skipped:
  assumes "unmarshal (msg_Value msg) = None"
  shows "processMessages unmarshal (Received msg # evs) batch kafkaMessages c =
           processMessages unmarshal evs batch kafkaMessages
             (snd (CommitMessages (incrementFailed c) [msg])) \<and>
         processMessages unmarshal [Received msg] batch kafkaMessages c =
           (batch, kafkaMessages, snd (CommitMessages (incrementFailed c) [msg])) \<and>
         messagesFailed (snd (CommitMessages (incrementFailed c) [msg])) = messagesFailed c + 1 \<and>
         commit_calls (snd (CommitMessages (incrementFailed c) [msg])) = commit_calls c @ [[msg]] \<and>
         committed (snd (CommitMessages (incrementFailed c) [msg])) =
           committed c @ (if n_faults c (n_calls c) = None then [[msg]] else []) \<and>
         collection (snd (CommitMessages (incrementFailed c) [msg])) = collection c \<and>
         messagesProcessed (snd (CommitMessages (incrementFailed c) [msg])) = messagesProcessed c"
  using assms
  by (simp add: parseMessage_def CommitMessages_def incrementFailed_def n_io_def
      split: option.splits)

theorem poison_message_skipped_witness:
  "example_unmarshal (msg_Value poison_message) = None \<and>
   processMessages example_unmarshal [Received poison_message, Received example_message]
       [] [] example_consumer =
     ([example_transfer], [example_message],
      example_consumer\<lparr>messagesFailed := 1, commit_calls := [[poison_message]],
                       committed := [[poison_message]], n_calls := 1\<rparr>)"
proof -
  have p: "example_unmarshal (msg_Value poison_message) = None"
    by (simp add: example_unmarshal_def poison_message_def)
  have c: "snd (CommitMessages (incrementFailed example_consumer) [poison_message]) =
      example_consumer\<lparr>messagesFailed := 1, commit_calls := [[poison_message]],
                       committed := [[poison_message]], n_calls := 1\<rparr>"
    by (simp add: CommitMessages_def incrementFailed_def n_io_def example_consumer_def)
  have r: "processMessages example_unmarshal [Received example_message] [] []
      (example_consumer\<lparr>messagesFailed := 1, commit_calls := [[poison_message]],
                       committed := [[poison_message]], n_calls := 1\<rparr>) =
     ([example_transfer], [example_message],
      example_consumer\<lparr>messagesFailed := 1, commit_calls := [[poison_message]],
                       committed := [[poison_message]], n_calls := 1\<rparr>)"
    by (simp add: parseMessage_def example_unmarshal_def example_message_def example_transfer_def
        example_consumer_def stamp_def)
  show ?thesis
    using poison_message_skipped [where unmarshal = example_unmarshal and msg = poison_message
        and evs = "[Received example_message]" and batch = "[]" and kafkaMessages = "[]"
        and c = example_consumer, OF p]
    by (simp only: p c r simp_thms)
qed


section \<open>Consumer: flushing a batch\<close>













end
